theory Spec2Isabelle
  imports Main "HOL-Library.Sublist"
begin

section \<open>Values exchanged with webhooks\<close>

text \<open>
  A webhook answers with parsed JSON, which the code handles as dynamically typed Python
  values. \<open>JNull\<close> is Python's \<open>None\<close>; a dictionary is an association list that is read
  with \<open>map_of\<close> (its keys are taken to be distinct, as the keys of a Python dict are).
  Numbers are integers here: fractional numbers play no part in what follows.
\<close>

datatype json =
    JNull
  | JBool bool
  | JNum int
  | JStr string
  | JList "json list"
  | JDict "(string \<times> json) list"

text \<open>The exception classes the code can meet.\<close>

datatype py_exn = KeyError | ValueError | TypeError | AttributeError

text \<open>Python's truth value of an object, as \<open>if response_data:\<close> and \<open>if m.reason\<close> test it.\<close>

fun truthy :: "json \<Rightarrow> bool" where
  "truthy JNull = False"
| "truthy (JBool b) = b"
| "truthy (JNum n) = (n \<noteq> 0)"
| "truthy (JStr s) = (s \<noteq> [])"
| "truthy (JList xs) = (xs \<noteq> [])"
| "truthy (JDict d) = (d \<noteq> [])"

text \<open>\<open>v[k]\<close> for a string key \<open>k\<close>: only a dict can be subscripted by a string.\<close>

fun py_subscript :: "json \<Rightarrow> string \<Rightarrow> py_exn + json" where
  "py_subscript (JDict d) k = (case map_of d k of None \<Rightarrow> Inl KeyError | Some v \<Rightarrow> Inr v)"
| "py_subscript v k = Inl TypeError"

text \<open>\<open>v.get(k, default)\<close>: only a dict has the method.\<close>

fun py_get :: "json \<Rightarrow> string \<Rightarrow> json \<Rightarrow> py_exn + json" where
  "py_get (JDict d) k dflt = (case map_of d k of None \<Rightarrow> Inr dflt | Some v \<Rightarrow> Inr v)"
| "py_get v k dflt = Inl AttributeError"

text \<open>
  \<open>for x in v\<close>: a list yields its elements, a dict its keys, a string its characters
  (each a one-character string); anything else is not iterable.
\<close>

fun py_iter :: "json \<Rightarrow> py_exn + json list" where
  "py_iter (JList xs) = Inr xs"
| "py_iter (JDict d) = Inr (map (\<lambda>kv. JStr (fst kv)) d)"
| "py_iter (JStr s) = Inr (map (\<lambda>c. JStr [c]) s)"
| "py_iter v = Inl TypeError"

section \<open>The exclusion parser\<close>

text \<open>
  The global-id codec \<open>graphene.Node.from_global_id\<close> is a collaborator outside the
  repository, so it is a parameter: \<open>codec token = Some (typename, id')\<close> when the token
  decodes, \<open>None\<close> when decoding fails, which the codec signals with a \<open>ValueError\<close>
  (bad base64, bad UTF-8, no separator to unpack). The codec base64-decodes its
  argument, and Python's decoder raises \<open>TypeError\<close> for an argument that is not a string.
\<close>

type_synonym codec = "string \<Rightarrow> (string \<times> string) option"

fun from_global_id :: "codec \<Rightarrow> json \<Rightarrow> py_exn + (string \<times> string)" where
  "from_global_id codec (JStr token) =
     (case codec token of None \<Rightarrow> Inl ValueError | Some r \<Rightarrow> Inr r)"
| "from_global_id codec v = Inl TypeError"

text \<open>
  The dict literal \<open>{"id": method_id, "reason": ...}\<close> built at line 145. Both keys are
  always present and the id is a string (the token itself or the decoded raw id); the
  reason is whatever value the webhook sent.
\<close>

record excluded_method_dict =
  dict_id :: string
  dict_reason :: json

text \<open>
  The body of the \<open>try\<close> block (lines 130 to 140): \<open>Inr (Some method_id)\<close> when the
  block falls through with \<open>method_id\<close> bound, \<open>Inr None\<close> for the \<open>continue\<close> of the
  unknown type tag, \<open>Inl e\<close> when it raises \<open>e\<close>. When \<open>typename\<close> is \<open>app\<close> the
  raw id is a string, since the codec accepted it.
\<close>

definition resolve_method_id :: "codec \<Rightarrow> json \<Rightarrow> py_exn + string option" where
  "resolve_method_id codec method_data =
     (case py_subscript method_data ''id'' of
        Inl e \<Rightarrow> Inl e
      | Inr raw_id \<Rightarrow>
          (case from_global_id codec raw_id of
             Inl e \<Rightarrow> Inl e
           | Inr (typename, id') \<Rightarrow>
               if typename = ''app'' then
                 (case raw_id of JStr token \<Rightarrow> Inr (Some token) | _ \<Rightarrow> Inl TypeError)
               else if typename = ''ShippingMethod'' then Inr (Some id')
               else Inr None))"

text \<open>\<open>except (KeyError, ValueError, TypeError)\<close>\<close>

fun caught :: "py_exn \<Rightarrow> bool" where
  "caught KeyError = True"
| "caught ValueError = True"
| "caught TypeError = True"
| "caught AttributeError = False"

text \<open>The loop of lines 128 to 146 over the entries, with the list built so far.\<close>

fun parse_entries ::
  "codec \<Rightarrow> json list \<Rightarrow> excluded_method_dict list \<Rightarrow> py_exn + excluded_method_dict list"
where
  "parse_entries codec [] excluded_methods = Inr excluded_methods"
| "parse_entries codec (method_data # rest) excluded_methods =
     (case resolve_method_id codec method_data of
        Inl e \<Rightarrow> if caught e then parse_entries codec rest excluded_methods else Inl e
      | Inr None \<Rightarrow> parse_entries codec rest excluded_methods
      | Inr (Some method_id) \<Rightarrow>
          (case py_get method_data ''reason'' (JStr []) of
             Inl e \<Rightarrow> Inl e
           | Inr reason \<Rightarrow>
               parse_entries codec rest
                 (excluded_methods @ [\<lparr>dict_id = method_id, dict_reason = reason\<rparr>])))"

definition get_excluded_shipping_methods_from_response ::
  "codec \<Rightarrow> json \<Rightarrow> py_exn + excluded_method_dict list"
where
  "get_excluded_shipping_methods_from_response codec response_data =
     (case py_get response_data ''excluded_methods'' (JList []) of
        Inl e \<Rightarrow> Inl e
      | Inr entries \<Rightarrow>
          (case py_iter entries of
             Inl e \<Rightarrow> Inl e
           | Inr method_datas \<Rightarrow> parse_entries codec method_datas []))"

section \<open>Grouping by id\<close>

text \<open>
  \<open>ExcludedShippingMethod\<close> is declared with a string id and an optional string reason.
  The constructor does not check its arguments, so at run time the reason is whatever
  value it was given.
\<close>

record ExcludedShippingMethod =
  esm_id :: string
  esm_reason :: json

text \<open>
  A \<open>defaultdict(list)\<close> keeps its keys in insertion order: an association list with
  distinct keys, the newest key last.
\<close>

type_synonym excluded_methods_map = "(string \<times> ExcludedShippingMethod list) list"

text \<open>\<open>excluded_methods_map[key].append(method)\<close>\<close>

fun map_append ::
  "excluded_methods_map \<Rightarrow> string \<Rightarrow> ExcludedShippingMethod \<Rightarrow> excluded_methods_map"
where
  "map_append [] key method = [(key, [method])]"
| "map_append ((k, methods) # rest) key method =
     (if k = key then (k, methods @ [method]) # rest
      else (k, methods) # map_append rest key method)"

definition parse_excluded_shipping_methods ::
  "excluded_method_dict list \<Rightarrow> excluded_methods_map"
where
  "parse_excluded_shipping_methods excluded_methods =
     foldl (\<lambda>excluded_methods_map excluded_method.
              map_append excluded_methods_map (dict_id excluded_method)
                \<lparr>esm_id = dict_id excluded_method, esm_reason = dict_reason excluded_method\<rparr>)
       [] excluded_methods"

section \<open>The fetcher\<close>

record App =
  pk :: int

record webhook =
  app :: App

text \<open>
  What lies outside the file: the registry of subscribed webhooks, the blocking call to
  one webhook (its answer, \<open>JNull\<close> when the call failed), the codec, and the two
  constants of \<open>const.py\<close>.
\<close>

record env =
  get_webhooks_for_event :: "string \<Rightarrow> webhook list"
  trigger_webhook_sync :: "string \<Rightarrow> string \<Rightarrow> App \<Rightarrow> nat \<Rightarrow> json"
  global_id_codec :: codec
  EXCLUDED_SHIPPING_REQUEST_TIMEOUT :: nat
  CACHE_EXCLUDED_SHIPPING_TIME :: nat

text \<open>
  The state a call reads and changes: the cache, and three logs that record every
  \<open>cache.set\<close> (key, value, time to live), every webhook invocation (event type, payload,
  app, timeout) and the number of evaluations of the payload function.
\<close>

type_synonym cache_entry = "string \<times> excluded_method_dict list"

record world =
  cache :: "string \<rightharpoonup> cache_entry"
  cache_sets :: "(string \<times> cache_entry \<times> nat) list"
  webhook_calls :: "(string \<times> string \<times> App \<times> nat) list"
  payload_evals :: nat

text \<open>
  The loop of lines 68 to 78. An exception leaves the loop at once, with the state as it
  is then.
\<close>

fun gather_responses ::
  "env \<Rightarrow> string \<Rightarrow> string \<Rightarrow> webhook list \<Rightarrow> excluded_method_dict list \<Rightarrow> world
   \<Rightarrow> (py_exn + excluded_method_dict list) \<times> world"
where
  "gather_responses e event_type payload [] excluded_methods w = (Inr excluded_methods, w)"
| "gather_responses e event_type payload (wh # rest) excluded_methods w =
     (let timeout = EXCLUDED_SHIPPING_REQUEST_TIMEOUT e;
          response_data = trigger_webhook_sync e event_type payload (app wh) timeout;
          w' = w\<lparr>webhook_calls :=
                   webhook_calls w @ [(event_type, payload, app wh, timeout)]\<rparr>
      in if truthy response_data then
           (case get_excluded_shipping_methods_from_response (global_id_codec e) response_data of
              Inl ex \<Rightarrow> (Inl ex, w')
            | Inr ms \<Rightarrow> gather_responses e event_type payload rest (excluded_methods @ ms) w')
         else gather_responses e event_type payload rest excluded_methods w')"

text \<open>Lines 66 to 80: the fan-out, the cache write and the grouping.\<close>

definition fetch_from_webhooks ::
  "env \<Rightarrow> webhook list \<Rightarrow> string \<Rightarrow> string \<Rightarrow> string \<Rightarrow> world
   \<Rightarrow> (py_exn + excluded_methods_map) \<times> world"
where
  "fetch_from_webhooks e webhooks event_type payload cache_key w =
     (case gather_responses e event_type payload webhooks [] w of
        (Inl ex, w') \<Rightarrow> (Inl ex, w')
      | (Inr excluded_methods, w') \<Rightarrow>
          (Inr (parse_excluded_shipping_methods excluded_methods),
           w'\<lparr>cache := (cache w')(cache_key \<mapsto> (payload, excluded_methods)),
              cache_sets := cache_sets w' @
                [(cache_key, (payload, excluded_methods), CACHE_EXCLUDED_SHIPPING_TIME e)]\<rparr>))"

definition get_excluded_shipping_methods_or_fetch ::
  "env \<Rightarrow> webhook list \<Rightarrow> string \<Rightarrow> string \<Rightarrow> string \<Rightarrow> world
   \<Rightarrow> (py_exn + excluded_methods_map) \<times> world"
where
  "get_excluded_shipping_methods_or_fetch e webhooks event_type payload cache_key w =
     (case cache w cache_key of
        Some (cached_payload, excluded_shipping_methods) \<Rightarrow>
          if payload = cached_payload
          then (Inr (parse_excluded_shipping_methods excluded_shipping_methods), w)
          else fetch_from_webhooks e webhooks event_type payload cache_key w
      | None \<Rightarrow> fetch_from_webhooks e webhooks event_type payload cache_key w)"

section \<open>The merger\<close>

text \<open>\<open>sep.join(items)\<close>: every item must be a string.\<close>

fun py_join :: "string \<Rightarrow> json list \<Rightarrow> py_exn + string" where
  "py_join sep [] = Inr []"
| "py_join sep [JStr s] = Inr s"
| "py_join sep (JStr s # rest) =
     (case py_join sep rest of Inl ex \<Rightarrow> Inl ex | Inr t \<Rightarrow> Inr (s @ sep @ t))"
| "py_join sep (v # rest) = Inl TypeError"

text \<open>Lines 117 to 119: the reason of one bucket.\<close>

definition joined_reason :: "ExcludedShippingMethod list \<Rightarrow> py_exn + json" where
  "joined_reason methods =
     (let reasons = filter truthy (map esm_reason methods)
      in if reasons \<noteq> [] then
           (case py_join '' '' reasons of Inl ex \<Rightarrow> Inl ex | Inr s \<Rightarrow> Inr (JStr s))
         else Inr JNull)"

text \<open>The loop of lines 116 to 120 over the items of the map, in the order of its keys.\<close>

fun unique_by_id ::
  "excluded_methods_map \<Rightarrow> ExcludedShippingMethod list
   \<Rightarrow> py_exn + ExcludedShippingMethod list"
where
  "unique_by_id [] excluded_methods = Inr excluded_methods"
| "unique_by_id ((method_id, methods) # rest) excluded_methods =
     (case joined_reason methods of
        Inl ex \<Rightarrow> Inl ex
      | Inr reason \<Rightarrow>
          unique_by_id rest (excluded_methods @ [\<lparr>esm_id = method_id, esm_reason = reason\<rparr>]))"

text \<open>Lines 110 to 121: the previous plugins' exclusions join the map, then the map is flattened.\<close>

definition merge_previous ::
  "excluded_methods_map \<Rightarrow> ExcludedShippingMethod list
   \<Rightarrow> py_exn + ExcludedShippingMethod list"
where
  "merge_previous excluded_methods_map previous_value =
     unique_by_id
       (foldl (\<lambda>m method. map_append m (esm_id method) method)
          excluded_methods_map previous_value)
       []"

text \<open>
  The payload function takes no argument; the state counts its evaluations. A query set
  is true when it is not empty.
\<close>

definition get_excluded_shipping_data ::
  "env \<Rightarrow> string \<Rightarrow> ExcludedShippingMethod list \<Rightarrow> (unit \<Rightarrow> string) \<Rightarrow> string \<Rightarrow> world
   \<Rightarrow> (py_exn + ExcludedShippingMethod list) \<times> world"
where
  "get_excluded_shipping_data e event_type previous_value payload_fun cache_key w =
     (let webhooks = get_webhooks_for_event e event_type;
          fetched =
            (if webhooks \<noteq> [] then
               (let payload = payload_fun ();
                    w1 = w\<lparr>payload_evals := payload_evals w + 1\<rparr>
                in get_excluded_shipping_methods_or_fetch e webhooks event_type payload
                     cache_key w1)
             else (Inr [], w))
      in case fetched of
           (Inl ex, w') \<Rightarrow> (Inl ex, w')
         | (Inr excluded_methods_map, w') \<Rightarrow>
             (merge_previous excluded_methods_map previous_value, w'))"

section \<open>The listing parser\<close>

text \<open>\<open>base64.b64encode\<close> of the standard library (RFC 4648, with padding), on bytes.\<close>

definition b64_char :: "nat \<Rightarrow> char" where
  "b64_char n =
     ''ABCDEFGHIJKLMNOPQRSTUVWXYZabcdefghijklmnopqrstuvwxyz0123456789+/'' ! n"

fun b64encode :: "string \<Rightarrow> string" where
  "b64encode [] = []"
| "b64encode [a] =
     (let x = (of_char a :: nat)
      in [b64_char (x div 4), b64_char ((x mod 4) * 16), CHR ''='', CHR ''=''])"
| "b64encode [a, b] =
     (let x = (of_char a :: nat); y = (of_char b :: nat)
      in [b64_char (x div 4), b64_char ((x mod 4) * 16 + y div 16),
          b64_char ((y mod 16) * 4), CHR ''=''])"
| "b64encode (a # b # c # rest) =
     (let x = (of_char a :: nat); y = (of_char b :: nat); z = (of_char c :: nat)
      in [b64_char (x div 4), b64_char ((x mod 4) * 16 + y div 16),
          b64_char ((y mod 16) * 4 + z div 64), b64_char (z mod 64)] @ b64encode rest)"

text \<open>\<open>str\<close> of an integer: its decimal digits, with a sign when negative.\<close>

fun str_nat :: "nat \<Rightarrow> string" where
  "str_nat n =
     (if n < 10 then [''0123456789'' ! n]
      else str_nat (n div 10) @ [''0123456789'' ! (n mod 10)])"

declare str_nat.simps [simp del]

definition str_int :: "int \<Rightarrow> string" where
  "str_int i = (if i < 0 then CHR ''-'' # str_nat (nat (- i)) else str_nat (nat i))"

text \<open>
  What lies outside the file: the prefix constant of \<open>utils.py\<close>, the constructor
  \<open>Money\<close> of the \<open>prices\<close> library (it may reject its arguments), and Python's text for
  a list or a dict inside an f-string.
\<close>

record 'money listing_env =
  APP_ID_PREFIX :: string
  Money :: "json \<Rightarrow> json \<Rightarrow> py_exn + 'money"
  py_repr :: "json \<Rightarrow> string"

text \<open>The text an f-string puts for a value: \<open>None\<close> is written \<open>None\<close>.\<close>

fun py_str :: "(json \<Rightarrow> string) \<Rightarrow> json \<Rightarrow> string" where
  "py_str r JNull = ''None''"
| "py_str r (JBool b) = (if b then ''True'' else ''False'')"
| "py_str r (JNum n) = str_int n"
| "py_str r (JStr s) = s"
| "py_str r v = r v"

text \<open>
  \<open>str.encode\<close>: a string is the list of the bytes of its UTF-8 encoding, where a
  surrogate code point, which JSON text can deliver alone, stands as the three bytes
  \<open>ED A0..BF 80..BF\<close> that strict UTF-8 forbids. Encoding a text with a surrogate raises
  \<open>UnicodeEncodeError\<close>, a \<open>ValueError\<close>.
\<close>

fun has_surrogate :: "string \<Rightarrow> bool" where
  "has_surrogate (a # b # rest) =
     ((of_char a = (237 :: nat) \<and> 160 \<le> (of_char b :: nat) \<and> (of_char b :: nat) \<le> 191)
      \<or> has_surrogate (b # rest))"
| "has_surrogate s = False"

definition str_encode :: "string \<Rightarrow> py_exn + string" where
  "str_encode s = (if has_surrogate s then Inl ValueError else Inr s)"

definition to_shipping_app_id :: "'money listing_env \<Rightarrow> App \<Rightarrow> json \<Rightarrow> py_exn + string" where
  "to_shipping_app_id P a shipping_method_id =
     (case str_encode (APP_ID_PREFIX P @ '':'' @ str_int (pk a) @ '':'' @
                       py_str (py_repr P) shipping_method_id) of
        Inl ex \<Rightarrow> Inl ex
      | Inr bytes \<Rightarrow> Inr (b64encode bytes))"

text \<open>
  \<open>ShippingMethodData\<close> is a data class of \<open>shipping/interface.py\<close>; its constructor
  stores the four arguments the parser passes.
\<close>

record 'money ShippingMethodData =
  smd_id :: string
  smd_name :: json
  smd_price :: 'money
  smd_maximum_delivery_days :: json

text \<open>
  The body of the loop, lines 35 to 47. \<open>d.get(k)\<close> is \<open>d.get(k, None)\<close>. The arguments
  of the constructor are evaluated in the order written: the id before the price.
\<close>

definition shipping_method_of ::
  "'money listing_env \<Rightarrow> App \<Rightarrow> json \<Rightarrow> py_exn + 'money ShippingMethodData"
where
  "shipping_method_of P a shipping_method_data =
     (case py_get shipping_method_data ''id'' JNull of
        Inl ex \<Rightarrow> Inl ex
      | Inr method_id \<Rightarrow>
     (case py_get shipping_method_data ''name'' JNull of
        Inl ex \<Rightarrow> Inl ex
      | Inr method_name \<Rightarrow>
     (case py_get shipping_method_data ''amount'' JNull of
        Inl ex \<Rightarrow> Inl ex
      | Inr method_amount \<Rightarrow>
     (case py_get shipping_method_data ''currency'' JNull of
        Inl ex \<Rightarrow> Inl ex
      | Inr method_currency \<Rightarrow>
     (case py_get shipping_method_data ''maximum_delivery_days'' JNull of
        Inl ex \<Rightarrow> Inl ex
      | Inr method_maximum_delivery_days \<Rightarrow>
     (case to_shipping_app_id P a method_id of
        Inl ex \<Rightarrow> Inl ex
      | Inr app_id \<Rightarrow>
     (case Money P method_amount method_currency of
        Inl ex \<Rightarrow> Inl ex
      | Inr price \<Rightarrow>
          Inr \<lparr>smd_id = app_id,
               smd_name = method_name,
               smd_price = price,
               smd_maximum_delivery_days = method_maximum_delivery_days\<rparr>)))))))"

fun shipping_methods_loop ::
  "'money listing_env \<Rightarrow> App \<Rightarrow> json list \<Rightarrow> 'money ShippingMethodData list
   \<Rightarrow> py_exn + 'money ShippingMethodData list"
where
  "shipping_methods_loop P a [] shipping_methods = Inr shipping_methods"
| "shipping_methods_loop P a (shipping_method_data # rest) shipping_methods =
     (case shipping_method_of P a shipping_method_data of
        Inl ex \<Rightarrow> Inl ex
      | Inr m \<Rightarrow> shipping_methods_loop P a rest (shipping_methods @ [m]))"

definition parse_list_shipping_methods_response ::
  "'money listing_env \<Rightarrow> json \<Rightarrow> App \<Rightarrow> py_exn + 'money ShippingMethodData list"
where
  "parse_list_shipping_methods_response P response_data a =
     (case py_iter response_data of
        Inl ex \<Rightarrow> Inl ex
      | Inr records \<Rightarrow> shipping_methods_loop P a records [])"

section \<open>The parser as the specification words it\<close>

text \<open>
  The specification's \<open>parse(entry)\<close>: the entry's id must decode into a type tag and a raw
  id; tag \<open>app\<close> keeps the token as given, tag \<open>ShippingMethod\<close> keeps the decoded raw id,
  any other tag and any failure to decode drop the entry; the reason is the empty string
  when absent.
\<close>

definition response_parser :: "codec \<Rightarrow> json \<Rightarrow> excluded_method_dict option" where
  "response_parser codec entry =
     (case entry of
        JDict d \<Rightarrow>
          (case map_of d ''id'' of
             Some (JStr token) \<Rightarrow>
               (case codec token of
                  Some (type_tag, raw_id) \<Rightarrow>
                    if type_tag = ''app'' then
                      Some \<lparr>dict_id = token,
                            dict_reason = (case map_of d ''reason'' of None \<Rightarrow> JStr [] | Some r \<Rightarrow> r)\<rparr>
                    else if type_tag = ''ShippingMethod'' then
                      Some \<lparr>dict_id = raw_id,
                            dict_reason = (case map_of d ''reason'' of None \<Rightarrow> JStr [] | Some r \<Rightarrow> r)\<rparr>
                    else None
                | None \<Rightarrow> None)
           | _ \<Rightarrow> None)
      | _ \<Rightarrow> None)"

text \<open>A small codec to evaluate examples with: three tokens decode, nothing else does.\<close>

definition example_codec :: codec where
  "example_codec =
     map_of [(''U2hpcHBpbmdNZXRob2Q6NDI='', (''ShippingMethod'', ''42'')),
             (''APP_9'', (''app'', ''9'')),
             (''T3JkZXI6Nw=='', (''Order'', ''7''))]"

section \<open>The merger as the specification words it\<close>

text \<open>First-seen order: every element once, at the place of its first occurrence.\<close>

definition first_seen :: "'a list \<Rightarrow> 'a list" where
  "first_seen xs = rev (remdups (rev xs))"

text \<open>The bucket of an id in a map; an id that is not a key has the empty bucket.\<close>

definition bucket :: "excluded_methods_map \<Rightarrow> string \<Rightarrow> ExcludedShippingMethod list" where
  "bucket m k = (case map_of m k of None \<Rightarrow> [] | Some methods \<Rightarrow> methods)"

text \<open>The declared type of a reason: \<open>None\<close> or a string.\<close>

fun optional_str :: "json \<Rightarrow> bool" where
  "optional_str JNull = True"
| "optional_str (JStr s) = True"
| "optional_str v = False"

definition reasons_typed :: "ExcludedShippingMethod list \<Rightarrow> bool" where
  "reasons_typed methods = list_all (\<lambda>m. optional_str (esm_reason m)) methods"

definition map_typed :: "excluded_methods_map \<Rightarrow> bool" where
  "map_typed m = list_all (\<lambda>kv. reasons_typed (snd kv)) m"

text \<open>The non-empty reason strings of a bucket, in bucket order, and their space-joined text.\<close>

fun nonempty_reasons :: "ExcludedShippingMethod list \<Rightarrow> string list" where
  "nonempty_reasons [] = []"
| "nonempty_reasons (m # methods) =
     (case esm_reason m of
        JStr s \<Rightarrow> if s = [] then nonempty_reasons methods else s # nonempty_reasons methods
      | _ \<Rightarrow> nonempty_reasons methods)"

fun space_join :: "string list \<Rightarrow> string" where
  "space_join [] = []"
| "space_join [s] = s"
| "space_join (s # rest) = s @ '' '' @ space_join rest"

definition final_reason :: "ExcludedShippingMethod list \<Rightarrow> json" where
  "final_reason methods =
     (if nonempty_reasons methods = [] then JNull
      else JStr (space_join (nonempty_reasons methods)))"

section \<open>Kept entries\<close>

text \<open>
  An entry is well formed when the specification's parser returns a record for it. A
  record is parsed from an entry when it has the parser's id and, where the entry's reason
  is absent, a string or null, the parser's reason: the empty string, the string or
  \<open>None\<close>.
\<close>

definition well_formed :: "codec \<Rightarrow> json \<Rightarrow> bool" where
  "well_formed codec entry = (response_parser codec entry \<noteq> None)"

definition parsed_as :: "codec \<Rightarrow> json \<Rightarrow> excluded_method_dict \<Rightarrow> bool" where
  "parsed_as codec entry r =
     (case response_parser codec entry of
        None \<Rightarrow> False
      | Some r' \<Rightarrow>
          dict_id r = dict_id r'
          \<and> (optional_str (dict_reason r') \<longrightarrow> dict_reason r = dict_reason r'))"

section \<open>The fetcher as the specification words it\<close>

text \<open>
  The entries of a response body: the body is a dict and the value under
  \<open>excluded_methods\<close> (the empty list when the key is absent) can be iterated.
\<close>

definition response_entries :: "json \<Rightarrow> json list option" where
  "response_entries response =
     (case response of
        JDict d \<Rightarrow>
          (case py_iter (case map_of d ''excluded_methods'' of None \<Rightarrow> JList [] | Some v \<Rightarrow> v) of
             Inr entries \<Rightarrow> Some entries
           | Inl ex \<Rightarrow> None)
      | _ \<Rightarrow> None)"

text \<open>A response is well shaped when it is falsy or has entries.\<close>

definition well_shaped :: "json \<Rightarrow> bool" where
  "well_shaped response = (if truthy response then response_entries response \<noteq> None else True)"

text \<open>What one response contributes: nothing when falsy, else its parsed entries.\<close>

definition contribution :: "codec \<Rightarrow> json \<Rightarrow> excluded_method_dict list" where
  "contribution codec response =
     (if truthy response then
        (case response_entries response of
           Some entries \<Rightarrow> List.map_filter (response_parser codec) entries
         | None \<Rightarrow> [])
      else [])"

text \<open>The answer of a webhook to the call the fetcher makes, and the record of that call.\<close>

definition answer :: "env \<Rightarrow> string \<Rightarrow> string \<Rightarrow> webhook \<Rightarrow> json" where
  "answer e event_type payload wh =
     trigger_webhook_sync e event_type payload (app wh) (EXCLUDED_SHIPPING_REQUEST_TIMEOUT e)"

definition call_of :: "env \<Rightarrow> string \<Rightarrow> string \<Rightarrow> webhook \<Rightarrow> string \<times> string \<times> App \<times> nat" where
  "call_of e event_type payload wh =
     (event_type, payload, app wh, EXCLUDED_SHIPPING_REQUEST_TIMEOUT e)"

text \<open>The raw list: the contributions of the webhooks, in registry order.\<close>

definition raw_list :: "env \<Rightarrow> string \<Rightarrow> string \<Rightarrow> webhook list \<Rightarrow> excluded_method_dict list" where
  "raw_list e event_type payload webhooks =
     concat (map (\<lambda>wh. contribution (global_id_codec e) (answer e event_type payload wh)) webhooks)"

text \<open>An \<open>ExcludedShippingMethod\<close> built from a cached dict, as line 157 builds it.\<close>

definition of_dict :: "excluded_method_dict \<Rightarrow> ExcludedShippingMethod" where
  "of_dict r = \<lparr>esm_id = dict_id r, esm_reason = dict_reason r\<rparr>"

text \<open>Two webhooks, an environment and an empty state to evaluate examples with.\<close>

definition example_webhooks :: "webhook list" where
  "example_webhooks = [\<lparr>app = \<lparr>pk = 1\<rparr>\<rparr>, \<lparr>app = \<lparr>pk = 2\<rparr>\<rparr>]"

definition example_env :: "(App \<Rightarrow> json) \<Rightarrow> env" where
  "example_env answers =
     \<lparr>get_webhooks_for_event =
        (\<lambda>event_type. if event_type = ''checkout_filter_shipping_methods''
                       then example_webhooks else []),
      trigger_webhook_sync = (\<lambda>event_type payload a timeout. answers a),
      global_id_codec = example_codec,
      EXCLUDED_SHIPPING_REQUEST_TIMEOUT = 2,
      CACHE_EXCLUDED_SHIPPING_TIME = 120\<rparr>"

definition empty_world :: world where
  "empty_world = \<lparr>cache = Map.empty, cache_sets = [], webhook_calls = [], payload_evals = 0\<rparr>"

text \<open>Answers by app, used with the example environment.\<close>

definition example_answers :: "App \<Rightarrow> json" where
  "example_answers a =
     (if pk a = 1 then JNull
      else JDict [(''excluded_methods'',
             JList [JDict [(''id'', JStr ''APP_9''), (''reason'', JStr ''restricted region'')],
                    JDict [(''id'', JStr ''not a token'')]])])"

text \<open>
  The codec of the \<open>graphene\<close> library on three tokens: a token is the base64 text of
  type tag and id joined by a colon. The tokens here are those of \<open>ShippingMethod:5\<close>,
  \<open>ShippingMethod:42\<close> and \<open>app:7:APP_9\<close>.
\<close>

definition sample_codec :: codec where
  "sample_codec =
     map_of [(''U2hpcHBpbmdNZXRob2Q6NQ=='', (''ShippingMethod'', ''5'')),
             (''U2hpcHBpbmdNZXRob2Q6NDI='', (''ShippingMethod'', ''42'')),
             (''YXBwOjc6QVBQXzk='', (''app'', ''7:APP_9''))]"

definition sample_env :: "(App \<Rightarrow> json) \<Rightarrow> env" where
  "sample_env answers = (example_env answers)\<lparr>global_id_codec := sample_codec\<rparr>"

text \<open>A first webhook whose body has \<open>null\<close> where the list of entries belongs.\<close>

definition null_list_answers :: "App \<Rightarrow> json" where
  "null_list_answers a =
     (if pk a = 1 then JDict [(''excluded_methods'', JNull)]
      else JDict [(''excluded_methods'',
             JList [JDict [(''id'', JStr ''U2hpcHBpbmdNZXRob2Q6NQ==''),
                           (''reason'', JStr ''too heavy'')]])])"

text \<open>A webhook that gives a number as the reason.\<close>

definition number_reason_answers :: "App \<Rightarrow> json" where
  "number_reason_answers a =
     (if pk a = 1 then
        JDict [(''excluded_methods'',
          JList [JDict [(''id'', JStr ''U2hpcHBpbmdNZXRob2Q6NQ==''), (''reason'', JNum 5)]])]
      else JNull)"

text \<open>Two webhooks that exclude the same method, the second with \<open>true\<close> as the reason.\<close>

definition mixed_reason_answers :: "App \<Rightarrow> json" where
  "mixed_reason_answers a =
     (if pk a = 1 then
        JDict [(''excluded_methods'',
          JList [JDict [(''id'', JStr ''U2hpcHBpbmdNZXRob2Q6NQ==''),
                        (''reason'', JStr ''too heavy'')]])]
      else
        JDict [(''excluded_methods'',
          JList [JDict [(''id'', JStr ''U2hpcHBpbmdNZXRob2Q6NQ==''),
                        (''reason'', JBool True)]])])"

section \<open>The listing parser as the claim words it\<close>

text \<open>A record is a dict; a field of a record is its value, \<open>None\<close> when absent.\<close>

fun is_dict :: "json \<Rightarrow> bool" where
  "is_dict (JDict d) = True"
| "is_dict v = False"

fun field :: "json \<Rightarrow> string \<Rightarrow> json" where
  "field (JDict d) k = (case map_of d k of None \<Rightarrow> JNull | Some v \<Rightarrow> v)"
| "field v k = JNull"

text \<open>The text of the id of a record for an app.\<close>

definition id_text :: "'money listing_env \<Rightarrow> App \<Rightarrow> json \<Rightarrow> string" where
  "id_text P a r =
     APP_ID_PREFIX P @ '':'' @ str_int (pk a) @ '':'' @ py_str (py_repr P) (field r ''id'')"

text \<open>
  The error a record stops the batch with: it is not a dict, the text of its id cannot
  be encoded, or \<open>Money\<close> rejects its amount and currency. A record without an error is
  one the parser accepts.
\<close>

definition record_error :: "'money listing_env \<Rightarrow> App \<Rightarrow> json \<Rightarrow> py_exn option" where
  "record_error P a r =
     (if is_dict r then
        if has_surrogate (id_text P a r) then Some ValueError
        else (case Money P (field r ''amount'') (field r ''currency'') of
                Inl ex \<Rightarrow> Some ex
              | Inr price \<Rightarrow> None)
      else Some AttributeError)"

definition record_ok :: "'money listing_env \<Rightarrow> App \<Rightarrow> json \<Rightarrow> bool" where
  "record_ok P a r = (record_error P a r = None)"

text \<open>What the claim says of one record and the object returned for it.\<close>

definition built_from :: "'money listing_env \<Rightarrow> App \<Rightarrow> json \<Rightarrow> 'money ShippingMethodData \<Rightarrow> bool" where
  "built_from P a r m =
     (smd_id m = b64encode (id_text P a r)
      \<and> smd_name m = field r ''name''
      \<and> Money P (field r ''amount'') (field r ''currency'') = Inr (smd_price m)
      \<and> smd_maximum_delivery_days m = field r ''maximum_delivery_days'')"

text \<open>
  An environment to evaluate examples with: the prefix \<open>app\<close>, and a \<open>Money\<close> that keeps
  an integer amount with its currency and rejects any other amount.
\<close>

definition example_listing_env :: "(int \<times> json) listing_env" where
  "example_listing_env =
     \<lparr>APP_ID_PREFIX = ''app'',
      Money = (\<lambda>amount currency.
                 case amount of JNum n \<Rightarrow> Inr (n, currency) | _ \<Rightarrow> Inl TypeError),
      py_repr = (\<lambda>v. ''[...]'')\<rparr>"

section \<open>Properties of the exclusion parser\<close>

lemma resolve_method_id_caught: "resolve_method_id codec md = Inl ex \<Longrightarrow> caught ex"
  by (cases md; cases "py_subscript md ''id''")
     (auto simp: resolve_method_id_def split: option.splits sum.splits json.splits if_splits prod.splits
        elim!: from_global_id.elims)


lemma response_parser_Some:
  assumes "response_parser codec md = Some r"
  shows "resolve_method_id codec md = Inr (Some (dict_id r))"
    and "py_get md ''reason'' (JStr []) = Inr (dict_reason r)"
  using assms
  by (auto simp: response_parser_def resolve_method_id_def
        split: json.splits option.splits prod.splits if_splits)

lemma response_parser_None:
  assumes "response_parser codec md = None"
  shows "resolve_method_id codec md = Inr None \<or> (\<exists>ex. resolve_method_id codec md = Inl ex)"
  using assms
  by (cases "resolve_method_id codec md")
     (auto simp: response_parser_def resolve_method_id_def
        split: json.splits option.splits prod.splits if_splits sum.splits)

lemma parse_entries_step:
  "parse_entries codec (md # rest) acc =
     parse_entries codec rest (acc @ (case response_parser codec md of None \<Rightarrow> [] | Some r \<Rightarrow> [r]))"
proof (cases "response_parser codec md")
  case None
  from response_parser_None [OF None] show ?thesis
  proof
    assume "resolve_method_id codec md = Inr None"
    with None show ?thesis by simp
  next
    assume "\<exists>ex. resolve_method_id codec md = Inl ex"
    then obtain ex where ex: "resolve_method_id codec md = Inl ex" ..
    then have "caught ex" by (rule resolve_method_id_caught)
    with ex None show ?thesis by simp
  qed
next
  case (Some r)
  from response_parser_Some [OF Some] Some show ?thesis by (cases r) simp
qed

lemma parse_entries_map_filter:
  "parse_entries codec entries acc = Inr (acc @ List.map_filter (response_parser codec) entries)"
proof (induction entries arbitrary: acc)
  case Nil
  show ?case by simp
next
  case (Cons md rest)
  show ?case
    unfolding parse_entries_step Cons.IH
    by (cases "response_parser codec md") simp_all
qed

lemma from_response_map_filter:
  assumes "py_get response_data ''excluded_methods'' (JList []) = Inr v"
    and "py_iter v = Inr entries"
  shows "get_excluded_shipping_methods_from_response codec response_data =
           Inr (List.map_filter (response_parser codec) entries)"
  using assms
  by (simp add: get_excluded_shipping_methods_from_response_def parse_entries_map_filter)



text \<open>
  C7: every entry of a batch that the specification's parser rejects (no id, an id that
  does not decode, a type tag other than the two known ones) is dropped without an error,
  and the other entries are returned.
\<close>

theorem malformed_entries_dropped:
  assumes "map_of d ''excluded_methods'' = Some (JList entries)"
  shows "get_excluded_shipping_methods_from_response codec (JDict d) =
           Inr (List.map_filter (response_parser codec) entries)"
  using assms by (simp add: from_response_map_filter)

theorem malformed_entries_dropped_witness:
  "get_excluded_shipping_methods_from_response example_codec
     (JDict [(''excluded_methods'',
        JList [JDict [(''reason'', JStr ''no id'')],
               JDict [(''id'', JStr ''T3JkZXI6Nw=='')],
               JDict [(''id'', JStr ''not a token'')],
               JStr ''junk'',
               JDict [(''id'', JStr ''APP_9''), (''reason'', JStr ''restricted region'')]])]) =
   Inr [\<lparr>dict_id = ''APP_9'', dict_reason = JStr ''restricted region''\<rparr>]"
  using malformed_entries_dropped
          [of "[(''excluded_methods'',
                 JList [JDict [(''reason'', JStr ''no id'')],
                        JDict [(''id'', JStr ''T3JkZXI6Nw=='')],
                        JDict [(''id'', JStr ''not a token'')],
                        JStr ''junk'',
                        JDict [(''id'', JStr ''APP_9''), (''reason'', JStr ''restricted region'')]])]"
              _ example_codec]
  by (simp add: response_parser_def example_codec_def)

lemma sample_tokens:
  "b64encode ''ShippingMethod:5'' = ''U2hpcHBpbmdNZXRob2Q6NQ==''
   \<and> b64encode ''ShippingMethod:42'' = ''U2hpcHBpbmdNZXRob2Q6NDI=''
   \<and> b64encode ''app:7:APP_9'' = ''YXBwOjc6QVBQXzk=''"
  by code_simp

lemma response_parser_reason:
  assumes "response_parser codec entry = Some r"
  shows "\<exists>d. entry = JDict d \<and>
           dict_reason r = (case map_of d ''reason'' of None \<Rightarrow> JStr [] | Some v \<Rightarrow> v)"
  using assms
  by (auto simp: response_parser_def split: json.splits option.splits prod.splits if_splits)

lemma parsed_as_map_filter:
  "list_all2 (parsed_as codec) (filter (well_formed codec) entries)
     (List.map_filter (response_parser codec) entries)"
  by (induction entries) (auto simp: well_formed_def parsed_as_def)

lemma parsed_as_reason:
  assumes "parsed_as codec (JDict d) r"
  shows "case map_of d ''reason'' of
           None \<Rightarrow> dict_reason r = JStr []
         | Some x \<Rightarrow> optional_str x \<longrightarrow> dict_reason r = x"
proof -
  from assms obtain r' where r': "response_parser codec (JDict d) = Some r'"
    and same: "optional_str (dict_reason r') \<longrightarrow> dict_reason r = dict_reason r'"
    by (auto simp: parsed_as_def split: option.splits)
  from response_parser_reason [OF r']
  have "dict_reason r' = (case map_of d ''reason'' of None \<Rightarrow> JStr [] | Some v \<Rightarrow> v)"
    by simp
  with same show ?thesis
    by (cases "map_of d ''reason''") simp_all
qed

text \<open>
  C9, as the code has it: the returned records are those of the well-formed entries, one
  for each, in their order in the input, so the list is never longer than the list of
  entries; a record's reason is the empty string when the entry has no reason field, the
  entry's reason when that is a string, and \<open>None\<close> when it is null.
\<close>

theorem parsed_entries_subsequence:
  assumes "py_get response_data ''excluded_methods'' (JList []) = Inr v"
    and "py_iter v = Inr entries"
  shows "\<exists>out.
           get_excluded_shipping_methods_from_response codec response_data = Inr out
           \<and> list_all2 (parsed_as codec) (filter (well_formed codec) entries) out
           \<and> subseq (filter (well_formed codec) entries) entries
           \<and> length out \<le> length entries
           \<and> (\<forall>i < length out. \<forall>d. filter (well_formed codec) entries ! i = JDict d \<longrightarrow>
                 (case map_of d ''reason'' of
                    None \<Rightarrow> dict_reason (out ! i) = JStr []
                  | Some x \<Rightarrow> optional_str x \<longrightarrow> dict_reason (out ! i) = x))"
proof -
  let ?kept = "filter (well_formed codec) entries"
  let ?out = "List.map_filter (response_parser codec) entries"
  have all2: "list_all2 (parsed_as codec) ?kept ?out"
    by (rule parsed_as_map_filter)
  then have len: "length ?out = length ?kept"
    by (simp add: list_all2_lengthD)
  then have le: "length ?out \<le> length entries"
    by simp
  have reasons: "case map_of d ''reason'' of
           None \<Rightarrow> dict_reason (?out ! i) = JStr []
         | Some x \<Rightarrow> optional_str x \<longrightarrow> dict_reason (?out ! i) = x"
    if "i < length ?out" and "?kept ! i = JDict d" for i d
  proof -
    from that(1) len have "i < length ?kept" by simp
    with all2 have "parsed_as codec (?kept ! i) (?out ! i)"
      by (rule list_all2_nthD)
    with that(2) show ?thesis
      by (simp add: parsed_as_reason)
  qed
  from from_response_map_filter [OF assms]
  have "get_excluded_shipping_methods_from_response codec response_data = Inr ?out" .
  with all2 le reasons show ?thesis
    by (intro exI [of _ ?out]) simp
qed

theorem parsed_entries_subsequence_witness:
  "\<exists>out.
     get_excluded_shipping_methods_from_response sample_codec
       (JDict [(''excluded_methods'',
          JList [JNum 3,
                 JDict [(''id'', JStr ''U2hpcHBpbmdNZXRob2Q6NQ==''), (''reason'', JNull)],
                 JDict [(''id'', JStr ''YXBwOjc6QVBQXzk='')]])]) = Inr out
     \<and> list_all2 (parsed_as sample_codec)
          (filter (well_formed sample_codec)
             [JNum 3,
              JDict [(''id'', JStr ''U2hpcHBpbmdNZXRob2Q6NQ==''), (''reason'', JNull)],
              JDict [(''id'', JStr ''YXBwOjc6QVBQXzk='')]]) out
     \<and> subseq
          (filter (well_formed sample_codec)
             [JNum 3,
              JDict [(''id'', JStr ''U2hpcHBpbmdNZXRob2Q6NQ==''), (''reason'', JNull)],
              JDict [(''id'', JStr ''YXBwOjc6QVBQXzk='')]])
          [JNum 3,
           JDict [(''id'', JStr ''U2hpcHBpbmdNZXRob2Q6NQ==''), (''reason'', JNull)],
           JDict [(''id'', JStr ''YXBwOjc6QVBQXzk='')]]
     \<and> length out \<le> length
          [JNum 3,
           JDict [(''id'', JStr ''U2hpcHBpbmdNZXRob2Q6NQ==''), (''reason'', JNull)],
           JDict [(''id'', JStr ''YXBwOjc6QVBQXzk='')]]
     \<and> (\<forall>i < length out. \<forall>d.
           filter (well_formed sample_codec)
             [JNum 3,
              JDict [(''id'', JStr ''U2hpcHBpbmdNZXRob2Q6NQ==''), (''reason'', JNull)],
              JDict [(''id'', JStr ''YXBwOjc6QVBQXzk='')]] ! i = JDict d \<longrightarrow>
           (case map_of d ''reason'' of
              None \<Rightarrow> dict_reason (out ! i) = JStr []
            | Some x \<Rightarrow> optional_str x \<longrightarrow> dict_reason (out ! i) = x))"
proof (rule parsed_entries_subsequence)
  show "py_get (JDict [(''excluded_methods'',
          JList [JNum 3,
                 JDict [(''id'', JStr ''U2hpcHBpbmdNZXRob2Q6NQ==''), (''reason'', JNull)],
                 JDict [(''id'', JStr ''YXBwOjc6QVBQXzk='')]])])
        ''excluded_methods'' (JList []) =
        Inr (JList [JNum 3,
                 JDict [(''id'', JStr ''U2hpcHBpbmdNZXRob2Q6NQ==''), (''reason'', JNull)],
                 JDict [(''id'', JStr ''YXBwOjc6QVBQXzk='')]])"
    by simp
  show "py_iter (JList [JNum 3,
                 JDict [(''id'', JStr ''U2hpcHBpbmdNZXRob2Q6NQ==''), (''reason'', JNull)],
                 JDict [(''id'', JStr ''YXBwOjc6QVBQXzk='')]]) =
        Inr [JNum 3,
                 JDict [(''id'', JStr ''U2hpcHBpbmdNZXRob2Q6NQ==''), (''reason'', JNull)],
                 JDict [(''id'', JStr ''YXBwOjc6QVBQXzk='')]]"
    by simp
qed

text \<open>
  An entry with the token of \<open>ShippingMethod:5\<close> and an explicit null as its reason: the
  returned record's reason is \<open>None\<close>, not a string.
\<close>

theorem reason_null_counterexample:
  "get_excluded_shipping_methods_from_response sample_codec
     (JDict [(''excluded_methods'',
        JList [JDict [(''id'', JStr ''U2hpcHBpbmdNZXRob2Q6NQ==''), (''reason'', JNull)]])]) =
   Inr [\<lparr>dict_id = ''5'', dict_reason = JNull\<rparr>]"
  by (simp add: get_excluded_shipping_methods_from_response_def resolve_method_id_def
        sample_codec_def)

section \<open>Properties of the merger\<close>

lemma keys_map_append:
  "map fst (map_append m k v) = (if k \<in> set (map fst m) then map fst m else map fst m @ [k])"
  by (induction m k v rule: map_append.induct) auto

lemma bucket_map_append:
  "bucket (map_append m k v) k' = (if k' = k then bucket m k' @ [v] else bucket m k')"
  by (induction m k v rule: map_append.induct) (auto simp: bucket_def)

lemma map_typed_map_append:
  "map_typed m \<Longrightarrow> optional_str (esm_reason v) \<Longrightarrow> map_typed (map_append m k v)"
  by (induction m k v rule: map_append.induct) (auto simp: map_typed_def reasons_typed_def)

lemma first_seen_snoc:
  "first_seen (xs @ [x]) = (if x \<in> set xs then first_seen xs else first_seen xs @ [x])"
  by (simp add: first_seen_def)

lemma set_first_seen: "set (first_seen xs) = set xs"
  by (simp add: first_seen_def)

lemma distinct_first_seen: "distinct (first_seen xs)"
  by (simp add: first_seen_def)

lemma first_seen_append:
  "distinct xs \<Longrightarrow> first_seen (xs @ ys) = xs @ first_seen (filter (\<lambda>k. k \<notin> set xs) ys)"
proof (induction ys rule: rev_induct)
  case Nil
  then show ?case by (simp add: first_seen_def distinct_remdups_id)
next
  case (snoc y ys)
  have "first_seen (xs @ ys @ [y]) =
          (if y \<in> set xs \<union> set ys then first_seen (xs @ ys) else first_seen (xs @ ys) @ [y])"
    using first_seen_snoc [of "xs @ ys" y] by simp
  with snoc show ?case
    by (auto simp: first_seen_snoc)
qed

lemma keys_foldl_map_append:
  assumes "distinct (map fst m)"
  shows "map fst (foldl (\<lambda>m method. map_append m (esm_id method) method) m p) =
           first_seen (map fst m @ map esm_id p)"
proof (induction p rule: rev_induct)
  case Nil
  from assms show ?case by (simp add: first_seen_def distinct_remdups_id)
next
  case (snoc x p)
  have "first_seen (map fst m @ map esm_id (p @ [x])) =
          (if esm_id x \<in> set (map fst m @ map esm_id p)
           then first_seen (map fst m @ map esm_id p)
           else first_seen (map fst m @ map esm_id p) @ [esm_id x])"
    using first_seen_snoc [of "map fst m @ map esm_id p" "esm_id x"] by simp
  moreover have "set (map fst m @ map esm_id p) = set (first_seen (map fst m @ map esm_id p))"
    by (simp only: set_first_seen)
  ultimately show ?case
    using snoc by (simp only: foldl_append foldl.simps keys_map_append)
qed

lemma bucket_foldl_map_append:
  "bucket (foldl (\<lambda>m method. map_append m (esm_id method) method) m p) k =
     bucket m k @ filter (\<lambda>x. esm_id x = k) p"
  by (induction p rule: rev_induct) (auto simp: bucket_map_append)

lemma map_typed_foldl_map_append:
  "map_typed m \<Longrightarrow> reasons_typed p \<Longrightarrow>
     map_typed (foldl (\<lambda>m method. map_append m (esm_id method) method) m p)"
  by (induction p rule: rev_induct) (auto simp: map_typed_map_append reasons_typed_def)

lemma py_join_space: "py_join '' '' (map JStr ss) = Inr (space_join ss)"
  by (induction ss rule: space_join.induct) simp_all

lemma truthy_reasons_typed:
  "reasons_typed methods \<Longrightarrow>
     filter truthy (map esm_reason methods) = map JStr (nonempty_reasons methods)"
proof (induction methods)
  case Nil
  show ?case by simp
next
  case (Cons m methods)
  then have "optional_str (esm_reason m)" and "reasons_typed methods"
    by (simp_all add: reasons_typed_def)
  with Cons.IH show ?case
    by (cases "esm_reason m") simp_all
qed

lemma joined_reason_typed:
  "reasons_typed methods \<Longrightarrow> joined_reason methods = Inr (final_reason methods)"
  by (simp add: joined_reason_def final_reason_def truthy_reasons_typed py_join_space)

lemma unique_by_id_typed:
  "map_typed m \<Longrightarrow>
     unique_by_id m acc =
       Inr (acc @ map (\<lambda>kv. \<lparr>esm_id = fst kv, esm_reason = final_reason (snd kv)\<rparr>) m)"
proof (induction m arbitrary: acc)
  case Nil
  show ?case by simp
next
  case (Cons kv m)
  obtain k b where kv: "kv = (k, b)" by (cases kv)
  from Cons.prems have "reasons_typed b" and "map_typed m"
    by (simp_all add: map_typed_def kv)
  then show ?case
    by (simp add: kv joined_reason_typed Cons.IH)
qed

lemma distinct_keys_bucket:
  "distinct (map fst m) \<Longrightarrow>
     map (\<lambda>kv. f (fst kv) (snd kv)) m = map (\<lambda>k. f k (bucket m k)) (map fst m)"
proof (induction m)
  case Nil
  show ?case by simp
next
  case (Cons kv m)
  obtain k b where kv: "kv = (k, b)" by (cases kv)
  from Cons.prems have notin: "k \<notin> fst ` set m" and d: "distinct (map fst m)"
    by (simp_all add: kv)
  have "map (\<lambda>k'. f k' (bucket (kv # m) k')) (map fst m) =
          map (\<lambda>k'. f k' (bucket m k')) (map fst m)"
    using notin by (intro map_cong) (auto simp: bucket_def kv)
  with Cons.IH [OF d] show ?case
    by (simp add: kv bucket_def)
qed

lemma merge_previous_eq:
  assumes "distinct (map fst m)" and "map_typed m" and "reasons_typed p"
  shows "merge_previous m p =
           Inr (map (\<lambda>k. \<lparr>esm_id = k,
                          esm_reason = final_reason (bucket m k @ filter (\<lambda>x. esm_id x = k) p)\<rparr>)
                  (first_seen (map fst m @ map esm_id p)))"
proof -
  let ?m' = "foldl (\<lambda>m method. map_append m (esm_id method) method) m p"
  have keys: "map fst ?m' = first_seen (map fst m @ map esm_id p)"
    using assms(1) by (rule keys_foldl_map_append)
  then have d: "distinct (map fst ?m')"
    by (simp only: distinct_first_seen)
  have "merge_previous m p =
          Inr (map (\<lambda>kv. \<lparr>esm_id = fst kv, esm_reason = final_reason (snd kv)\<rparr>) ?m')"
    using unique_by_id_typed [OF map_typed_foldl_map_append [OF assms(2,3)], of "[]"]
    by (simp add: merge_previous_def)
  also have "map (\<lambda>kv. \<lparr>esm_id = fst kv, esm_reason = final_reason (snd kv)\<rparr>) ?m' =
               map (\<lambda>k. \<lparr>esm_id = k, esm_reason = final_reason (bucket ?m' k)\<rparr>) (map fst ?m')"
    using distinct_keys_bucket [OF d, of "\<lambda>k b. \<lparr>esm_id = k, esm_reason = final_reason b\<rparr>"] .
  finally show ?thesis
    by (simp only: keys bucket_foldl_map_append)
qed

section \<open>Properties of the fetcher\<close>

lemma from_response_contribution:
  assumes "truthy response" and "well_shaped response"
  shows "get_excluded_shipping_methods_from_response codec response =
           Inr (contribution codec response)"
proof -
  from assms obtain entries where es: "response_entries response = Some entries"
    by (auto simp: well_shaped_def)
  then obtain d where d: "response = JDict d"
    by (cases response) (simp_all add: response_entries_def)
  from es have "py_iter (case map_of d ''excluded_methods'' of None \<Rightarrow> JList [] | Some v \<Rightarrow> v)
                  = Inr entries"
    by (simp add: response_entries_def d split: sum.splits)
  then have "get_excluded_shipping_methods_from_response codec response =
               Inr (List.map_filter (response_parser codec) entries)"
    by (intro from_response_map_filter [where v = "case map_of d ''excluded_methods'' of
                None \<Rightarrow> JList [] | Some v \<Rightarrow> v"])
       (simp_all add: d split: option.splits)
  with assms(1) es show ?thesis
    by (simp add: contribution_def)
qed

lemma gather_responses_shaped:
  assumes "\<forall>wh \<in> set webhooks. well_shaped (answer e event_type payload wh)"
  shows "gather_responses e event_type payload webhooks acc w =
           (Inr (acc @ raw_list e event_type payload webhooks),
            w\<lparr>webhook_calls := webhook_calls w @ map (call_of e event_type payload) webhooks\<rparr>)"
  using assms
proof (induction webhooks arbitrary: acc w)
  case Nil
  show ?case by (simp add: raw_list_def)
next
  case (Cons wh rest)
  let ?r = "answer e event_type payload wh"
  let ?w' = "w\<lparr>webhook_calls := webhook_calls w @ [call_of e event_type payload wh]\<rparr>"
  from Cons.prems have shaped: "well_shaped ?r"
    and rest: "\<forall>wh \<in> set rest. well_shaped (answer e event_type payload wh)"
    by simp_all
  have step: "gather_responses e event_type payload (wh # rest) acc w =
          gather_responses e event_type payload rest
            (acc @ contribution (global_id_codec e) ?r) ?w'"
  proof (cases "truthy ?r")
    case True
    with from_response_contribution [OF True shaped, of "global_id_codec e"]
    show ?thesis
      by (simp add: answer_def call_of_def Let_def)
  next
    case False
    then show ?thesis
      by (simp add: answer_def call_of_def Let_def contribution_def)
  qed
  show ?case
    unfolding step Cons.IH [OF rest]
    by (simp add: raw_list_def)
qed

lemma keys_parse:
  "map fst (parse_excluded_shipping_methods raw) = first_seen (map dict_id raw)"
proof (induction raw rule: rev_induct)
  case Nil
  show ?case by (simp add: parse_excluded_shipping_methods_def first_seen_def)
next
  case (snoc r raw)
  have "set (map dict_id raw) = set (first_seen (map dict_id raw))"
    by (simp only: set_first_seen)
  with snoc show ?case
    using first_seen_snoc [of "map dict_id raw" "dict_id r"]
    by (simp add: parse_excluded_shipping_methods_def keys_map_append)
qed

lemma bucket_parse:
  "bucket (parse_excluded_shipping_methods raw) k =
     map of_dict (filter (\<lambda>r. dict_id r = k) raw)"
proof (induction raw rule: rev_induct)
  case Nil
  show ?case by (simp add: parse_excluded_shipping_methods_def bucket_def)
next
  case (snoc r raw)
  then show ?case
    by (auto simp: parse_excluded_shipping_methods_def bucket_map_append of_dict_def)
qed

lemma fetch_on_miss:
  assumes "\<forall>stored. cache w cache_key \<noteq> Some (payload, stored)"
    and "\<forall>wh \<in> set webhooks. well_shaped (answer e event_type payload wh)"
  shows "get_excluded_shipping_methods_or_fetch e webhooks event_type payload cache_key w =
           (Inr (parse_excluded_shipping_methods (raw_list e event_type payload webhooks)),
            w\<lparr>webhook_calls := webhook_calls w @ map (call_of e event_type payload) webhooks,
              cache := (cache w)
                (cache_key \<mapsto> (payload, raw_list e event_type payload webhooks)),
              cache_sets := cache_sets w @
                [(cache_key, (payload, raw_list e event_type payload webhooks),
                  CACHE_EXCLUDED_SHIPPING_TIME e)]\<rparr>)"
proof -
  have fetch: "fetch_from_webhooks e webhooks event_type payload cache_key w =
           (Inr (parse_excluded_shipping_methods (raw_list e event_type payload webhooks)),
            w\<lparr>webhook_calls := webhook_calls w @ map (call_of e event_type payload) webhooks,
              cache := (cache w)
                (cache_key \<mapsto> (payload, raw_list e event_type payload webhooks)),
              cache_sets := cache_sets w @
                [(cache_key, (payload, raw_list e event_type payload webhooks),
                  CACHE_EXCLUDED_SHIPPING_TIME e)]\<rparr>)"
    by (simp add: fetch_from_webhooks_def gather_responses_shaped [OF assms(2)])
  show ?thesis
  proof (cases "cache w cache_key")
    case None
    then show ?thesis
      by (simp add: get_excluded_shipping_methods_or_fetch_def fetch)
  next
    case (Some entry)
    obtain cached_payload stored where entry: "entry = (cached_payload, stored)"
      by (cases entry)
    with Some assms(1) have "payload \<noteq> cached_payload" by auto
    with Some entry show ?thesis
      by (simp add: get_excluded_shipping_methods_or_fetch_def fetch)
  qed
qed

text \<open>
  C1: when the cache holds, under the key, an entry whose stored payload equals the
  payload, the call returns the stored raw results grouped by id (keys in first-seen order,
  each bucket the records of that id in stored order) and leaves the state as it was: no
  webhook is invoked and nothing is written to the cache.
\<close>

theorem cache_hit_no_webhook_no_write:
  assumes "cache w cache_key = Some (payload, stored)"
  shows "get_excluded_shipping_methods_or_fetch e webhooks event_type payload cache_key w =
           (Inr (parse_excluded_shipping_methods stored), w)
         \<and> map fst (parse_excluded_shipping_methods stored) = first_seen (map dict_id stored)
         \<and> bucket (parse_excluded_shipping_methods stored) k =
             map of_dict (filter (\<lambda>r. dict_id r = k) stored)"
  using assms
  by (simp add: get_excluded_shipping_methods_or_fetch_def keys_parse bucket_parse)

theorem cache_hit_no_webhook_no_write_witness:
  "get_excluded_shipping_methods_or_fetch (example_env (\<lambda>a. JNull)) example_webhooks
     ''checkout_filter_shipping_methods'' ''payload''  ''key''
     (empty_world\<lparr>cache := [''key'' \<mapsto> (''payload'',
        [\<lparr>dict_id = ''5'', dict_reason = JStr ''too heavy''\<rparr>,
         \<lparr>dict_id = ''APP_9'', dict_reason = JStr ''restricted region''\<rparr>,
         \<lparr>dict_id = ''5'', dict_reason = JNull\<rparr>])]\<rparr>) =
   (Inr [(''5'', [\<lparr>esm_id = ''5'', esm_reason = JStr ''too heavy''\<rparr>,
                  \<lparr>esm_id = ''5'', esm_reason = JNull\<rparr>]),
         (''APP_9'', [\<lparr>esm_id = ''APP_9'', esm_reason = JStr ''restricted region''\<rparr>])],
    empty_world\<lparr>cache := [''key'' \<mapsto> (''payload'',
        [\<lparr>dict_id = ''5'', dict_reason = JStr ''too heavy''\<rparr>,
         \<lparr>dict_id = ''APP_9'', dict_reason = JStr ''restricted region''\<rparr>,
         \<lparr>dict_id = ''5'', dict_reason = JNull\<rparr>])]\<rparr>)"
  using cache_hit_no_webhook_no_write
          [where w = "empty_world\<lparr>cache := [''key'' \<mapsto> (''payload'',
              [\<lparr>dict_id = ''5'', dict_reason = JStr ''too heavy''\<rparr>,
               \<lparr>dict_id = ''APP_9'', dict_reason = JStr ''restricted region''\<rparr>,
               \<lparr>dict_id = ''5'', dict_reason = JNull\<rparr>])]\<rparr>"
             and cache_key = "''key''" and payload = "''payload''"
             and stored = "[\<lparr>dict_id = ''5'', dict_reason = JStr ''too heavy''\<rparr>,
               \<lparr>dict_id = ''APP_9'', dict_reason = JStr ''restricted region''\<rparr>,
               \<lparr>dict_id = ''5'', dict_reason = JNull\<rparr>]"
             and e = "example_env (\<lambda>a. JNull)" and webhooks = example_webhooks
             and event_type = "''checkout_filter_shipping_methods''" and k = "''5''"]
  by (simp add: parse_excluded_shipping_methods_def)

text \<open>
  C2 at a first webhook that answers \<open>{"excluded_methods": null}\<close>, with no cache entry: the
  claim has both webhooks invoked and one cache write; the call raises \<open>TypeError\<close> at the
  loop over the entries, the second webhook is never invoked and nothing is written to the
  cache.
\<close>

theorem null_list_aborts_fetch:
  "get_excluded_shipping_methods_or_fetch (sample_env null_list_answers) example_webhooks
     ''checkout_filter_shipping_methods'' ''payload'' ''key'' empty_world =
   (Inl TypeError,
    \<lparr>cache = Map.empty, cache_sets = [],
     webhook_calls = [(''checkout_filter_shipping_methods'', ''payload'', \<lparr>pk = 1\<rparr>, 2)],
     payload_evals = 0\<rparr>)"
  by (simp add: get_excluded_shipping_methods_or_fetch_def fetch_from_webhooks_def
        sample_env_def example_env_def example_webhooks_def null_list_answers_def
        empty_world_def get_excluded_shipping_methods_from_response_def)

text \<open>
  C3: when the registry has no subscriber for the event type, the call leaves the state as
  it was, so the payload function is not evaluated, and returns the merge of the empty map
  with the previous list: the previous list deduplicated by id with the reasons joined.
\<close>

theorem no_subscriber_no_payload:
  assumes "get_webhooks_for_event e event_type = []"
  shows "get_excluded_shipping_data e event_type previous_value payload_fun cache_key w =
           (merge_previous [] previous_value, w)
         \<and> (reasons_typed previous_value \<longrightarrow>
              merge_previous [] previous_value =
                Inr (map (\<lambda>k. \<lparr>esm_id = k,
                               esm_reason =
                                 final_reason (filter (\<lambda>x. esm_id x = k) previous_value)\<rparr>)
                       (first_seen (map esm_id previous_value))))"
proof -
  have "get_excluded_shipping_data e event_type previous_value payload_fun cache_key w =
          (merge_previous [] previous_value, w)"
    using assms by (simp add: get_excluded_shipping_data_def)
  moreover have "merge_previous [] previous_value =
      Inr (map (\<lambda>k. \<lparr>esm_id = k,
                     esm_reason = final_reason (filter (\<lambda>x. esm_id x = k) previous_value)\<rparr>)
             (first_seen (map esm_id previous_value)))"
    if "reasons_typed previous_value"
    using merge_previous_eq [of "[]" previous_value] that
    by (simp add: map_typed_def bucket_def)
  ultimately show ?thesis by blast
qed

theorem no_subscriber_no_payload_witness:
  "get_excluded_shipping_data (example_env example_answers) ''order_filter_shipping_methods''
     [\<lparr>esm_id = ''A'', esm_reason = JStr ''y''\<rparr>, \<lparr>esm_id = ''B'', esm_reason = JNull\<rparr>,
      \<lparr>esm_id = ''A'', esm_reason = JStr ''z''\<rparr>]
     (\<lambda>u. ''payload'') ''key'' empty_world =
   (Inr [\<lparr>esm_id = ''A'', esm_reason = JStr ''y z''\<rparr>, \<lparr>esm_id = ''B'', esm_reason = JNull\<rparr>],
    empty_world)"
  using no_subscriber_no_payload
          [where e = "example_env example_answers"
             and event_type = "''order_filter_shipping_methods''"
             and previous_value = "[\<lparr>esm_id = ''A'', esm_reason = JStr ''y''\<rparr>,
                \<lparr>esm_id = ''B'', esm_reason = JNull\<rparr>, \<lparr>esm_id = ''A'', esm_reason = JStr ''z''\<rparr>]"
             and payload_fun = "\<lambda>u. ''payload''" and cache_key = "''key''"
             and w = empty_world]
  by (simp add: example_env_def reasons_typed_def first_seen_def final_reason_def)

text \<open>
  C8: with subscribers, no usable cache entry and only falsy responses, the call returns
  without an error what the previous list alone gives, which is the merge of the empty map
  with it: one entry per id of the previous list, in first-seen order, with the joined
  reasons of that id. Every webhook was called and the empty raw list was cached.
\<close>

theorem all_webhooks_fail_open:
  assumes "get_webhooks_for_event e event_type \<noteq> []"
    and "\<forall>stored. cache w cache_key \<noteq> Some (payload_fun (), stored)"
    and "\<forall>wh \<in> set (get_webhooks_for_event e event_type).
           \<not> truthy (answer e event_type (payload_fun ()) wh)"
    and "reasons_typed previous_value"
  shows "get_excluded_shipping_data e event_type previous_value payload_fun cache_key w =
           (Inr (map (\<lambda>k. \<lparr>esm_id = k,
                           esm_reason =
                             final_reason (filter (\<lambda>x. esm_id x = k) previous_value)\<rparr>)
                   (first_seen (map esm_id previous_value))),
            w\<lparr>payload_evals := payload_evals w + 1,
              webhook_calls := webhook_calls w @
                map (call_of e event_type (payload_fun ())) (get_webhooks_for_event e event_type),
              cache := (cache w)(cache_key \<mapsto> (payload_fun (), [])),
              cache_sets := cache_sets w @
                [(cache_key, (payload_fun (), []), CACHE_EXCLUDED_SHIPPING_TIME e)]\<rparr>)
         \<and> merge_previous [] previous_value =
             Inr (map (\<lambda>k. \<lparr>esm_id = k,
                             esm_reason =
                               final_reason (filter (\<lambda>x. esm_id x = k) previous_value)\<rparr>)
                    (first_seen (map esm_id previous_value)))"
proof -
  let ?whs = "get_webhooks_for_event e event_type"
  let ?p = "payload_fun ()"
  let ?w1 = "w\<lparr>payload_evals := payload_evals w + 1\<rparr>"
  have shaped: "\<forall>wh \<in> set ?whs. well_shaped (answer e event_type ?p wh)"
    using assms(3) by (simp add: well_shaped_def)
  have raw: "raw_list e event_type ?p ?whs = []"
    using assms(3) by (simp add: raw_list_def contribution_def)
  have miss: "\<forall>stored. cache ?w1 cache_key \<noteq> Some (?p, stored)"
    using assms(2) by simp
  have fetched:
    "get_excluded_shipping_methods_or_fetch e ?whs event_type ?p cache_key ?w1 =
       (Inr [],
        w\<lparr>payload_evals := payload_evals w + 1,
          webhook_calls := webhook_calls w @ map (call_of e event_type ?p) ?whs,
          cache := (cache w)(cache_key \<mapsto> (?p, [])),
          cache_sets := cache_sets w @ [(cache_key, (?p, []), CACHE_EXCLUDED_SHIPPING_TIME e)]\<rparr>)"
    using fetch_on_miss [OF miss shaped]
    by (simp add: raw parse_excluded_shipping_methods_def)
  have merged: "merge_previous [] previous_value =
      Inr (map (\<lambda>k. \<lparr>esm_id = k,
                     esm_reason = final_reason (filter (\<lambda>x. esm_id x = k) previous_value)\<rparr>)
             (first_seen (map esm_id previous_value)))"
    using merge_previous_eq [of "[]" previous_value] assms(4)
    by (simp add: map_typed_def bucket_def)
  from assms(1) fetched merged show ?thesis
    by (simp add: get_excluded_shipping_data_def Let_def)
qed

theorem all_webhooks_fail_open_witness:
  "get_excluded_shipping_data (example_env (\<lambda>a. JNull)) ''checkout_filter_shipping_methods''
     [\<lparr>esm_id = ''A'', esm_reason = JStr ''y''\<rparr>, \<lparr>esm_id = ''B'', esm_reason = JNull\<rparr>,
      \<lparr>esm_id = ''A'', esm_reason = JStr ''z''\<rparr>]
     (\<lambda>u. ''payload'') ''key'' empty_world =
   (Inr [\<lparr>esm_id = ''A'', esm_reason = JStr ''y z''\<rparr>, \<lparr>esm_id = ''B'', esm_reason = JNull\<rparr>],
    \<lparr>cache = [''key'' \<mapsto> (''payload'', [])],
     cache_sets = [(''key'', (''payload'', []), 120)],
     webhook_calls = [(''checkout_filter_shipping_methods'', ''payload'', \<lparr>pk = 1\<rparr>, 2),
                      (''checkout_filter_shipping_methods'', ''payload'', \<lparr>pk = 2\<rparr>, 2)],
     payload_evals = 1\<rparr>)"
  using all_webhooks_fail_open
          [where e = "example_env (\<lambda>a. JNull)"
             and event_type = "''checkout_filter_shipping_methods''"
             and previous_value = "[\<lparr>esm_id = ''A'', esm_reason = JStr ''y''\<rparr>,
                \<lparr>esm_id = ''B'', esm_reason = JNull\<rparr>, \<lparr>esm_id = ''A'', esm_reason = JStr ''z''\<rparr>]"
             and payload_fun = "\<lambda>u. ''payload''" and cache_key = "''key''"
             and w = empty_world]
  by (simp add: example_env_def example_webhooks_def empty_world_def answer_def call_of_def
        reasons_typed_def first_seen_def final_reason_def)

text \<open>
  C4 at a webhook that excludes the method of token \<open>ShippingMethod:5\<close> with the number 5 as
  the reason, an empty previous list and no cache entry: the claim has an output with one
  entry, for the id 5; the call raises \<open>TypeError\<close> where the reasons are joined, after the
  cache write, and gives no output.
\<close>

theorem number_reason_aborts_merge:
  "get_excluded_shipping_data (sample_env number_reason_answers)
     ''checkout_filter_shipping_methods'' [] (\<lambda>u. ''payload'') ''key'' empty_world =
   (Inl TypeError,
    \<lparr>cache = [''key'' \<mapsto> (''payload'', [\<lparr>dict_id = ''5'', dict_reason = JNum 5\<rparr>])],
     cache_sets = [(''key'', (''payload'', [\<lparr>dict_id = ''5'', dict_reason = JNum 5\<rparr>]), 120)],
     webhook_calls = [(''checkout_filter_shipping_methods'', ''payload'', \<lparr>pk = 1\<rparr>, 2),
                      (''checkout_filter_shipping_methods'', ''payload'', \<lparr>pk = 2\<rparr>, 2)],
     payload_evals = 1\<rparr>)"
  by (simp add: get_excluded_shipping_data_def get_excluded_shipping_methods_or_fetch_def
        fetch_from_webhooks_def sample_env_def example_env_def example_webhooks_def
        number_reason_answers_def empty_world_def sample_codec_def resolve_method_id_def
        get_excluded_shipping_methods_from_response_def parse_excluded_shipping_methods_def
        merge_previous_def joined_reason_def Let_def)

text \<open>
  C5 at two webhooks that exclude the method of token \<open>ShippingMethod:5\<close>, the first with the
  reason \<open>too heavy\<close>, the second with \<open>true\<close>, and a previous list that excludes it as
  \<open>fragile\<close>: the claim has the final reason \<open>too heavy fragile\<close>, the non-empty reason
  strings of the bucket; the call raises \<open>TypeError\<close> where the reasons are joined.
\<close>

theorem mixed_reasons_abort_merge:
  "get_excluded_shipping_data (sample_env mixed_reason_answers)
     ''checkout_filter_shipping_methods'' [\<lparr>esm_id = ''5'', esm_reason = JStr ''fragile''\<rparr>]
     (\<lambda>u. ''payload'') ''key'' empty_world =
   (Inl TypeError,
    \<lparr>cache = [''key'' \<mapsto> (''payload'',
        [\<lparr>dict_id = ''5'', dict_reason = JStr ''too heavy''\<rparr>,
         \<lparr>dict_id = ''5'', dict_reason = JBool True\<rparr>])],
     cache_sets = [(''key'', (''payload'',
        [\<lparr>dict_id = ''5'', dict_reason = JStr ''too heavy''\<rparr>,
         \<lparr>dict_id = ''5'', dict_reason = JBool True\<rparr>]), 120)],
     webhook_calls = [(''checkout_filter_shipping_methods'', ''payload'', \<lparr>pk = 1\<rparr>, 2),
                      (''checkout_filter_shipping_methods'', ''payload'', \<lparr>pk = 2\<rparr>, 2)],
     payload_evals = 1\<rparr>)"
  by (simp add: get_excluded_shipping_data_def get_excluded_shipping_methods_or_fetch_def
        fetch_from_webhooks_def sample_env_def example_env_def example_webhooks_def
        mixed_reason_answers_def empty_world_def sample_codec_def resolve_method_id_def
        get_excluded_shipping_methods_from_response_def parse_excluded_shipping_methods_def
        merge_previous_def joined_reason_def Let_def)

section \<open>Properties of the listing parser\<close>

lemma to_shipping_app_id_field:
  "to_shipping_app_id P a (field r ''id'') =
     (if has_surrogate (id_text P a r) then Inl ValueError
      else Inr (b64encode (id_text P a r)))"
  by (simp add: to_shipping_app_id_def str_encode_def id_text_def)

lemma py_get_field: "is_dict r \<Longrightarrow> py_get r k JNull = Inr (field r k)"
  by (cases r) (simp_all split: option.splits)

lemma shipping_method_of_ok:
  assumes "record_ok P a r"
  shows "\<exists>m. shipping_method_of P a r = Inr m \<and> built_from P a r m"
proof -
  from assms have d: "is_dict r" and s: "\<not> has_surrogate (id_text P a r)"
    by (auto simp: record_ok_def record_error_def split: if_splits)
  from assms d s obtain price
    where price: "Money P (field r ''amount'') (field r ''currency'') = Inr price"
    by (auto simp: record_ok_def record_error_def split: sum.splits)
  have "shipping_method_of P a r =
          Inr \<lparr>smd_id = b64encode (id_text P a r), smd_name = field r ''name'',
               smd_price = price,
               smd_maximum_delivery_days = field r ''maximum_delivery_days''\<rparr>"
    by (simp add: shipping_method_of_def py_get_field [OF d] to_shipping_app_id_field s price)
  with price show ?thesis
    by (simp add: built_from_def)
qed

lemma shipping_method_of_error:
  assumes "record_error P a r = Some ex"
  shows "shipping_method_of P a r = Inl ex"
proof (cases "is_dict r")
  case False
  with assms have "ex = AttributeError"
    by (simp add: record_error_def)
  with False show ?thesis
    by (cases r) (simp_all add: shipping_method_of_def)
next
  case True
  with assms show ?thesis
    by (auto simp: shipping_method_of_def py_get_field [OF True] to_shipping_app_id_field
          record_error_def split: if_splits sum.splits)
qed

lemma shipping_methods_loop_ok:
  assumes "list_all (record_ok P a) records"
  shows "\<exists>ms. shipping_methods_loop P a records acc = Inr (acc @ ms)
           \<and> list_all2 (built_from P a) records ms"
  using assms
proof (induction records arbitrary: acc)
  case Nil
  show ?case by simp
next
  case (Cons r records)
  then have "record_ok P a r" by simp
  then obtain m where m: "shipping_method_of P a r = Inr m" "built_from P a r m"
    using shipping_method_of_ok by blast
  from Cons obtain ms
    where ms: "shipping_methods_loop P a records (acc @ [m]) = Inr ((acc @ [m]) @ ms)"
      "list_all2 (built_from P a) records ms"
    by fastforce
  show ?case
  proof (intro exI [of _ "m # ms"] conjI)
    show "shipping_methods_loop P a (r # records) acc = Inr (acc @ m # ms)"
      using m(1) ms(1) by simp
    show "list_all2 (built_from P a) (r # records) (m # ms)"
      using m(2) ms(2) by simp
  qed
qed

lemma shipping_methods_loop_abort:
  assumes "list_all (record_ok P a) before" and "record_error P a bad = Some ex"
  shows "shipping_methods_loop P a (before @ bad # after) acc = Inl ex"
  using assms(1)
proof (induction before arbitrary: acc)
  case Nil
  show ?case
    using shipping_method_of_error [OF assms(2)] by simp
next
  case (Cons r before)
  then have "record_ok P a r" and rest: "list_all (record_ok P a) before"
    by simp_all
  then obtain m where "shipping_method_of P a r = Inr m"
    using shipping_method_of_ok by blast
  with Cons.IH [OF rest] show ?case by simp
qed

text \<open>
  C10, as the code has it: when the parser accepts every record, it returns one object per
  record, in input order, whose id is the base64 text of prefix, app key and the record's
  id joined by colons, a field that is absent being read as \<open>None\<close>; no record is dropped.
  The first record it does not accept (not a dict, an id that cannot be encoded, an amount
  and currency that \<open>Money\<close> rejects) aborts the whole batch with its error.
\<close>

theorem listing_one_per_record:
  assumes "py_iter response_data = Inr records"
  shows "(list_all (record_ok P a) records \<longrightarrow>
            (\<exists>out. parse_list_shipping_methods_response P response_data a = Inr out
               \<and> list_all2 (built_from P a) records out))
         \<and> (\<forall>before bad after ex.
               records = before @ bad # after \<and> list_all (record_ok P a) before
               \<and> record_error P a bad = Some ex \<longrightarrow>
               parse_list_shipping_methods_response P response_data a = Inl ex)"
proof (intro conjI impI allI)
  assume "list_all (record_ok P a) records"
  then show "\<exists>out. parse_list_shipping_methods_response P response_data a = Inr out
               \<and> list_all2 (built_from P a) records out"
    using shipping_methods_loop_ok [of P a records "[]"] assms
    by (simp add: parse_list_shipping_methods_response_def)
next
  fix before bad after ex
  assume "records = before @ bad # after \<and> list_all (record_ok P a) before
            \<and> record_error P a bad = Some ex"
  then show "parse_list_shipping_methods_response P response_data a = Inl ex"
    using shipping_methods_loop_abort [of P a before bad ex after "[]"] assms
    by (simp add: parse_list_shipping_methods_response_def)
qed

theorem listing_one_per_record_witness:
  "(\<exists>out. parse_list_shipping_methods_response example_listing_env
            (JList [JDict [(''id'', JStr ''abc''), (''name'', JStr ''UPS''), (''amount'', JNum 12),
                           (''currency'', JStr ''USD'')]]) \<lparr>pk = 1\<rparr> = Inr out
          \<and> list_all2 (built_from example_listing_env \<lparr>pk = 1\<rparr>)
                [JDict [(''id'', JStr ''abc''), (''name'', JStr ''UPS''), (''amount'', JNum 12),
                        (''currency'', JStr ''USD'')]] out)
   \<and> parse_list_shipping_methods_response example_listing_env
        (JList [JDict [(''id'', JStr ''abc''), (''amount'', JNum 12)],
                JDict [(''id'', JStr ''def''), (''amount'', JStr ''a lot'')],
                JDict [(''id'', JStr ''ghi''), (''amount'', JNum 3)]]) \<lparr>pk = 1\<rparr> = Inl TypeError
   \<and> parse_list_shipping_methods_response example_listing_env
        (JList [JStr ''junk'']) \<lparr>pk = 1\<rparr> = Inl AttributeError"
proof -
  let ?good = "JDict [(''id'', JStr ''abc''), (''name'', JStr ''UPS''), (''amount'', JNum 12),
                      (''currency'', JStr ''USD'')]"
  let ?r1 = "JDict [(''id'', JStr ''abc''), (''amount'', JNum 12)]"
  let ?r2 = "JDict [(''id'', JStr ''def''), (''amount'', JStr ''a lot'')]"
  let ?r3 = "JDict [(''id'', JStr ''ghi''), (''amount'', JNum 3)]"
  let ?P = example_listing_env
  let ?a = "\<lparr>pk = 1\<rparr>"
  have ok: "record_ok ?P ?a ?good" "record_ok ?P ?a ?r1"
    by (code_simp, code_simp)
  have bad: "record_error ?P ?a ?r2 = Some TypeError"
    "record_error ?P ?a (JStr ''junk'') = Some AttributeError"
    by (code_simp, code_simp)
  have "\<exists>out. parse_list_shipping_methods_response ?P (JList [?good]) ?a = Inr out
          \<and> list_all2 (built_from ?P ?a) [?good] out"
    using listing_one_per_record [of "JList [?good]" "[?good]" ?P ?a] ok(1) by simp
  moreover have "parse_list_shipping_methods_response ?P (JList [?r1, ?r2, ?r3]) ?a
                   = Inl TypeError"
  proof -
    have "py_iter (JList [?r1, ?r2, ?r3]) = Inr [?r1, ?r2, ?r3]" by simp
    from listing_one_per_record [OF this, of ?P ?a, THEN conjunct2, rule_format,
        of "[?r1]" ?r2 "[?r3]" TypeError]
    show ?thesis using ok(2) bad(1) by simp
  qed
  moreover have "parse_list_shipping_methods_response ?P (JList [JStr ''junk'']) ?a
                   = Inl AttributeError"
  proof -
    have "py_iter (JList [JStr ''junk'']) = Inr [JStr ''junk'']" by simp
    from listing_one_per_record [OF this, of ?P ?a, THEN conjunct2, rule_format,
        of "[]" "JStr ''junk''" "[]" AttributeError]
    show ?thesis using bad(2) by simp
  qed
  ultimately show ?thesis by blast
qed

text \<open>
  A first record without an id field: the batch is not aborted. The record's object is
  returned with the id built from the text \<open>None\<close>, and so is the next record's.
\<close>

theorem missing_id_counterexample:
  "parse_list_shipping_methods_response example_listing_env
     (JList [JDict [(''name'', JStr ''DHL''), (''amount'', JNum 10), (''currency'', JStr ''USD'')],
             JDict [(''id'', JStr ''abc''), (''name'', JStr ''UPS''), (''amount'', JNum 12),
                    (''currency'', JStr ''USD''), (''maximum_delivery_days'', JNum 7)]])
     \<lparr>pk = 1\<rparr> =
   Inr [\<lparr>smd_id = ''YXBwOjE6Tm9uZQ=='', smd_name = JStr ''DHL'', smd_price = (10, JStr ''USD''),
         smd_maximum_delivery_days = JNull\<rparr>,
        \<lparr>smd_id = ''YXBwOjE6YWJj'', smd_name = JStr ''UPS'', smd_price = (12, JStr ''USD''),
         smd_maximum_delivery_days = JNum 7\<rparr>]"
  by code_simp

text \<open>An id that holds the lone surrogate U+D800 cannot be encoded: the batch is aborted.\<close>

lemma lone_surrogate_aborts:
  "parse_list_shipping_methods_response example_listing_env
     (JList [JDict [(''id'', JStr [CHR 0xED, CHR 0xA0, CHR 0x80]), (''amount'', JNum 1)]])
     \<lparr>pk = 1\<rparr> = Inl ValueError"
  by code_simp

end
